theory Spec2Isabelle
  imports Complex_Main "HOL-Library.Multiset"
begin

section \<open>The canvas store (hooks/useCanvasState.ts)\<close>

text \<open>
  The store is a zustand store: a record of fields, read with \<open>get()\<close> and updated
  with \<open>set(partial)\<close>, which merges the given fields into the current store. Every
  action is modelled as a function from the store to the store; \<open>Date.now()\<close> is the
  parameter \<open>now\<close> (milliseconds, an integer). JavaScript numbers that carry
  priorities and urgencies are modelled as reals; NaN and the infinities are outside the
  model, except for a task's age, where \<open>None\<close> stands for NaN.
\<close>

datatype CanvasState =
  Idle | Inputting | Listening | Thinking | Responding | Reflecting | Identity | Silent

datatype CoreState = CoreIdle | CoreListening | CoreThinking | CoreActing | CoreSilent

datatype NodeStatus = Active | Completing | Fading

record TaskNode =
  node_id :: string
  node_title :: string
  node_priority :: real
  node_urgency :: real
  node_age :: "int option"
  node_status :: NodeStatus

record Action =
  act_id :: string
  act_title :: string
  act_estimatedMinutes :: "int option"

record AIResponse =
  ai_statement :: string
  ai_actions :: "Action list"
  ai_confidence :: "string option"
  ai_intentId :: "string option"

record CanvasStore =
  state :: CanvasState
  coreState :: CoreState
  urgency :: real
  tasks :: "TaskNode list"
  transcript :: string
  isTranscribing :: bool
  aiResponse :: "AIResponse option"
  lastInteraction :: int
  silenceThreshold :: int
  error :: "string option"

text \<open>The initial store; \<open>silenceThreshold\<close> is \<open>5 * 60 * 1000\<close> and no action writes it.\<close>

definition initialStore :: "int \<Rightarrow> CanvasStore" where
  "initialStore now =
     \<lparr> state = Idle, coreState = CoreIdle, urgency = 3 / 10, tasks = [],
       transcript = [], isTranscribing = False, aiResponse = None,
       lastInteraction = now, silenceThreshold = 5 * 60 * 1000, error = None \<rparr>"

fun mapToCoreState :: "CanvasState \<Rightarrow> CoreState" where
  "mapToCoreState Listening = CoreListening"
| "mapToCoreState Thinking = CoreThinking"
| "mapToCoreState Responding = CoreActing"
| "mapToCoreState Silent = CoreSilent"
| "mapToCoreState Reflecting = CoreSilent"
| "mapToCoreState Identity = CoreSilent"
| "mapToCoreState _ = CoreIdle"

subsection \<open>Silence mode\<close>

definition recordInteraction :: "int \<Rightarrow> CanvasStore \<Rightarrow> CanvasStore" where
  "recordInteraction now s =
     s\<lparr> lastInteraction := now,
        state := (if state s = Silent then Idle else state s) \<rparr>"

definition checkSilence :: "int \<Rightarrow> CanvasStore \<Rightarrow> CanvasStore" where
  "checkSilence now s =
     (let timeSinceInteraction = now - lastInteraction s in
      if timeSinceInteraction > silenceThreshold s \<and> state s = Idle
      then s\<lparr> state := Silent, coreState := CoreSilent \<rparr>
      else s)"

subsection \<open>Setters and the input overlay\<close>

definition setState :: "int \<Rightarrow> CanvasState \<Rightarrow> CanvasStore \<Rightarrow> CanvasStore" where
  "setState now st s =
     recordInteraction now (s\<lparr> state := st, coreState := mapToCoreState st \<rparr>)"

definition setUrgency :: "real \<Rightarrow> CanvasStore \<Rightarrow> CanvasStore" where
  "setUrgency u s = s\<lparr> urgency := u \<rparr>"

definition setError :: "string option \<Rightarrow> CanvasStore \<Rightarrow> CanvasStore" where
  "setError e s = s\<lparr> error := e \<rparr>"

definition openInput :: "int \<Rightarrow> CanvasStore \<Rightarrow> CanvasStore" where
  "openInput now s =
     recordInteraction now (s\<lparr> state := Inputting, coreState := CoreIdle, error := None \<rparr>)"

definition closeInput :: "CanvasStore \<Rightarrow> CanvasStore" where
  "closeInput s = s\<lparr> state := Idle, coreState := CoreIdle \<rparr>"

definition setTranscript :: "string \<Rightarrow> CanvasStore \<Rightarrow> CanvasStore" where
  "setTranscript t s = s\<lparr> transcript := t \<rparr>"

definition setAIResponse :: "AIResponse option \<Rightarrow> CanvasStore \<Rightarrow> CanvasStore" where
  "setAIResponse r s = s\<lparr> aiResponse := r \<rparr>"

subsection \<open>State views\<close>

definition showReflection :: "string \<Rightarrow> CanvasStore \<Rightarrow> CanvasStore" where
  "showReflection insight s = s\<lparr> state := Reflecting, coreState := CoreSilent \<rparr>"

definition showIdentity :: "int \<Rightarrow> CanvasStore \<Rightarrow> CanvasStore" where
  "showIdentity now s = recordInteraction now (s\<lparr> state := Identity, coreState := CoreSilent \<rparr>)"

definition dismissOverlay :: "CanvasStore \<Rightarrow> CanvasStore" where
  "dismissOverlay s = s\<lparr> state := Idle, coreState := CoreIdle \<rparr>"

subsection \<open>Numbers in template literals\<close>

text \<open>
  \<open>`action-${i}`\<close> and \<open>`${Math.round(c * 100)}% confident`\<close> print an integer in
  decimal. \<open>Math.round\<close> rounds half up. The product \<open>c * 100\<close> is taken on the
  reals here; the code takes it on doubles, where it can fall on the other side of a half
  (0.285 * 100 is 28.499999999999996 there), so the printed percentage can differ by one.
\<close>

definition digit_char :: "nat \<Rightarrow> char" where
  "digit_char d = ''0123456789'' ! d"

function nat_toString :: "nat \<Rightarrow> string" where
  "nat_toString n =
     (if n < 10 then [digit_char n] else nat_toString (n div 10) @ [digit_char (n mod 10)])"
  by pat_completeness auto
termination
  by (relation "measure id") auto

declare nat_toString.simps [simp del]

definition int_toString :: "int \<Rightarrow> string" where
  "int_toString i = (if i < 0 then CHR ''-'' # nat_toString (nat (- i)) else nat_toString (nat i))"

definition Math_round :: "real \<Rightarrow> int" where
  "Math_round x = \<lfloor>x + 1 / 2\<rfloor>"

subsection \<open>Backend calls\<close>

text \<open>
  A backend call either resolves with the response's data or rejects with a thrown value.
  The response interceptor of services/api.ts rejects with \<open>new Error(message)\<close>; the
  handlers still test \<open>error instanceof Error\<close>, so both kinds of thrown value are kept.
  A resolved response's data is an object of the shape the handlers read.
\<close>

datatype thrown = Error string | NonError

datatype InputSource = TextSource | VoiceSource

record SuggestedTask =
  sug_id :: "string option"
  sug_title :: string
  sug_estimated_minutes :: "int option"

record Interpretation =
  interp_interpretation :: "string option"
  interp_suggested_tasks :: "SuggestedTask list option"
  interp_confidence :: "real option"

record TaskCreateData =
  create_title :: string
  create_estimated_minutes :: "int option"

record Api =
  createIntent :: "string \<Rightarrow> InputSource \<Rightarrow> thrown + string"
  interpretIntent :: "string \<Rightarrow> thrown + Interpretation"
  createTask :: "TaskCreateData \<Rightarrow> thrown + string option"

text \<open>\<open>a || b\<close> on an optional string: an absent or empty \<open>a\<close> is falsy.\<close>

definition string_or :: "string option \<Rightarrow> string \<Rightarrow> string" where
  "string_or a b = (case a of None \<Rightarrow> b | Some x \<Rightarrow> if x = [] then b else x)"

subsection \<open>Input actions\<close>

definition toAction :: "SuggestedTask \<times> nat \<Rightarrow> Action" where
  "toAction p =
     (case p of (task, i) \<Rightarrow>
        \<lparr> act_id = string_or (sug_id task) (''action-'' @ nat_toString i),
          act_title = sug_title task,
          act_estimatedMinutes = sug_estimated_minutes task \<rparr>)"

definition toAIResponse :: "Interpretation \<Rightarrow> string \<Rightarrow> AIResponse" where
  "toAIResponse interpretation intentId =
     \<lparr> ai_statement =
         string_or (interp_interpretation interpretation)
           ''I understand. Here's what I suggest.'',
       ai_actions =
         (case interp_suggested_tasks interpretation of
            None \<Rightarrow> []
          | Some ts \<Rightarrow> map toAction (zip ts [0 ..< length ts])),
       ai_confidence =
         Some (case interp_confidence interpretation of
                 None \<Rightarrow> ''Based on your patterns''
               | Some c \<Rightarrow>
                   if c = 0 then ''Based on your patterns''
                   else int_toString (Math_round (c * 100)) @ ''% confident''),
       ai_intentId = Some intentId \<rparr>"

definition error_message :: "thrown \<Rightarrow> string \<Rightarrow> string" where
  "error_message e fallback = (case e of Error m \<Rightarrow> m | NonError \<Rightarrow> fallback)"

text \<open>The synchronous prefix of \<open>submitInput\<close>: the first \<open>set\<close> and \<open>recordInteraction\<close>.\<close>

definition submitInput_begin :: "int \<Rightarrow> CanvasStore \<Rightarrow> CanvasStore" where
  "submitInput_begin now s =
     recordInteraction now (s\<lparr> state := Thinking, coreState := CoreThinking, error := None \<rparr>)"

definition submitInput_catch :: "thrown \<Rightarrow> CanvasStore \<Rightarrow> CanvasStore" where
  "submitInput_catch e s =
     s\<lparr> error := Some (error_message e ''Failed to process your thought''),
        state := Idle, coreState := CoreIdle \<rparr>"

text \<open>
  \<open>submitInput\<close> returns the store as it stands when the first backend call is awaited,
  and the store when the action has ended.
\<close>

definition submitInput ::
  "Api \<Rightarrow> int \<Rightarrow> string \<Rightarrow> InputSource \<Rightarrow> CanvasStore \<Rightarrow> CanvasStore \<times> CanvasStore" where
  "submitInput api now text source s =
     (let s1 = submitInput_begin now s in
      (s1,
       case createIntent api text source of
         Inl e \<Rightarrow> submitInput_catch e s1
       | Inr intentId \<Rightarrow>
           (case interpretIntent api intentId of
              Inl e \<Rightarrow> submitInput_catch e s1
            | Inr interpretation \<Rightarrow>
                s1\<lparr> aiResponse := Some (toAIResponse interpretation intentId),
                    state := Responding, coreState := CoreActing \<rparr>)))"

subsection \<open>Selecting a suggested action\<close>

definition newTask :: "string \<Rightarrow> Action \<Rightarrow> TaskNode" where
  "newTask ident action =
     \<lparr> node_id = ident, node_title = act_title action, node_priority = 8 / 10,
       node_urgency = 5 / 10, node_age = Some 0, node_status = Active \<rparr>"

text \<open>
  \<open>tasks\<close> and \<open>aiResponse\<close> are read when the action starts. On success the new task's
  id is \<open>taskResponse.data.id || actionId\<close>; the \<open>catch\<close> branch adds the task with
  \<open>actionId\<close>. Two seconds later a timer sets \<open>coreState\<close> back to \<open>idle\<close>
  (\<open>coreState_timeout\<close> below).
\<close>

definition selectAction :: "Api \<Rightarrow> string \<Rightarrow> CanvasStore \<Rightarrow> CanvasStore" where
  "selectAction api actionId s =
     (case (case aiResponse s of None \<Rightarrow> None
            | Some r \<Rightarrow> find (\<lambda>a. act_id a = actionId) (ai_actions r)) of
        None \<Rightarrow> s
      | Some action \<Rightarrow>
          (case createTask api \<lparr> create_title = act_title action,
                                 create_estimated_minutes = act_estimatedMinutes action \<rparr> of
             Inr responseId \<Rightarrow>
               s\<lparr> tasks := tasks s @ [newTask (string_or responseId actionId) action],
                  aiResponse := None, state := Idle, coreState := CoreActing \<rparr>
           | Inl e \<Rightarrow>
               s\<lparr> tasks := tasks s @ [newTask actionId action],
                  aiResponse := None, state := Idle, coreState := CoreActing \<rparr>))"

subsection \<open>Voice input\<close>

text \<open>
  \<open>stopListening\<close> submits the transcript unless \<open>transcript.trim()\<close> is empty.
  \<open>trim\<close> removes white space at both ends; strings are lists of 8-bit characters here,
  so the white space is the ASCII white space and the no-break space.
\<close>

definition startListening :: "int \<Rightarrow> CanvasStore \<Rightarrow> CanvasStore" where
  "startListening now s =
     recordInteraction now
       (s\<lparr> state := Listening, coreState := CoreListening, transcript := [],
           isTranscribing := True \<rparr>)"

definition isWhiteSpace :: "char \<Rightarrow> bool" where
  "isWhiteSpace c =
     (c \<in> set [CHR 0x09, CHR 0x0A, CHR 0x0B, CHR 0x0C, CHR 0x0D, CHR 0x20, CHR 0xA0])"

definition trim :: "string \<Rightarrow> string" where
  "trim x = rev (dropWhile isWhiteSpace (rev (dropWhile isWhiteSpace x)))"

definition stopListening :: "Api \<Rightarrow> int \<Rightarrow> CanvasStore \<Rightarrow> CanvasStore" where
  "stopListening api now s =
     (let s1 = s\<lparr> isTranscribing := False \<rparr> in
      if trim (transcript s) \<noteq> []
      then snd (submitInput api now (transcript s) TextSource s1)
      else s1\<lparr> state := Idle, coreState := CoreIdle \<rparr>)"

subsection \<open>Task actions\<close>

definition setTasks :: "TaskNode list \<Rightarrow> CanvasStore \<Rightarrow> CanvasStore" where
  "setTasks ts s = s\<lparr> tasks := ts \<rparr>"

definition addTask :: "TaskNode \<Rightarrow> CanvasStore \<Rightarrow> CanvasStore" where
  "addTask task s = s\<lparr> tasks := tasks s @ [task] \<rparr>"

text \<open>
  \<open>completeTask\<close> first marks the task (the update made before the backend call), and
  800 ms later a timer removes it from the list \<open>tasks\<close> that was read when the action
  started; one second after that a second timer sets \<open>coreState\<close> to \<open>idle\<close>. The
  backend call's failure is only logged.
\<close>

definition completeTask_immediate :: "string \<Rightarrow> CanvasStore \<Rightarrow> CanvasStore" where
  "completeTask_immediate taskId s =
     s\<lparr> tasks := map (\<lambda>t. if node_id t = taskId then t\<lparr> node_status := Completing \<rparr> else t)
                     (tasks s) \<rparr>"

definition completeTask_timeout :: "string \<Rightarrow> TaskNode list \<Rightarrow> CanvasStore \<Rightarrow> CanvasStore" where
  "completeTask_timeout taskId captured s =
     s\<lparr> tasks := filter (\<lambda>t. node_id t \<noteq> taskId) captured, coreState := CoreActing \<rparr>"

definition coreState_timeout :: "CanvasStore \<Rightarrow> CanvasStore" where
  "coreState_timeout s = s\<lparr> coreState := CoreIdle \<rparr>"

subsection \<open>Urgency scoring and fetching the tasks\<close>

text \<open>
  A date string parses to a time in milliseconds or to an invalid date, whose
  \<open>getTime()\<close> is NaN, so that every comparison with it is false. An absent or empty
  \<open>due_date\<close> is falsy. \<open>calculateUrgency\<close> accepts any object with the three fields
  it reads.
\<close>

datatype JsDate = InvalidDate | DateMs int

record UrgencyInput =
  in_priority :: "real option"
  in_due_date :: "JsDate option"
  in_created_at :: JsDate

record BackendTask = UrgencyInput +
  bt_id :: string
  bt_title :: string
  bt_status :: string

definition calculateUrgency :: "int \<Rightarrow> 'a UrgencyInput_scheme \<Rightarrow> real" where
  "calculateUrgency now task =
     (let urgency0 = (case in_priority task of
                        None \<Rightarrow> 5 / 10
                      | Some p \<Rightarrow> if p = 0 then 5 / 10 else p);
          urgency1 =
            (case in_due_date task of
               None \<Rightarrow> urgency0
             | Some InvalidDate \<Rightarrow> urgency0
             | Some (DateMs dueDate) \<Rightarrow>
                 (let daysUntilDue = real_of_int (dueDate - now) / (1000 * 60 * 60 * 24) in
                  if daysUntilDue < 1 then max urgency0 (9 / 10)
                  else if daysUntilDue < 3 then max urgency0 (7 / 10)
                  else if daysUntilDue < 7 then max urgency0 (5 / 10)
                  else urgency0))
      in min urgency1 1)"

definition calculateAge :: "int \<Rightarrow> JsDate \<Rightarrow> int option" where
  "calculateAge now createdAt =
     (case createdAt of
        InvalidDate \<Rightarrow> None
      | DateMs created \<Rightarrow> Some \<lfloor>real_of_int (now - created) / (1000 * 60 * 60 * 24)\<rfloor>)"

definition toTaskNode :: "int \<Rightarrow> BackendTask \<Rightarrow> TaskNode" where
  "toTaskNode now t =
     \<lparr> node_id = bt_id t, node_title = bt_title t,
       node_priority = (case in_priority t of None \<Rightarrow> 5 / 10
                        | Some p \<Rightarrow> if p = 0 then 5 / 10 else p),
       node_urgency = calculateUrgency now t,
       node_age = calculateAge now (in_created_at t),
       node_status = (if bt_status t = ''completed'' then Completing else Active) \<rparr>"

text \<open>\<open>fetchTasks\<close>: a failed call is only logged; an absent \<open>response.data\<close> counts as the empty list.\<close>

definition fetchTasks :: "int \<Rightarrow> thrown + BackendTask list option \<Rightarrow> CanvasStore \<Rightarrow> CanvasStore" where
  "fetchTasks now response s =
     (case response of
        Inl e \<Rightarrow> s
      | Inr None \<Rightarrow> s\<lparr> tasks := [] \<rparr>
      | Inr (Some backendTasks) \<Rightarrow> s\<lparr> tasks := map (toTaskNode now) backendTasks \<rparr>)"

subsection \<open>The actions as a transition system\<close>

text \<open>
  Every action of the store, and every timer an action starts, is one transition; an
  asynchronous action is taken with the outcome of its backend calls.
\<close>

datatype CanvasAction =
    SetState int CanvasState
  | SetUrgency real
  | SetError "string option"
  | OpenInput int
  | CloseInput
  | SubmitInput Api int string InputSource
  | StartListening int
  | StopListening Api int
  | SetTranscript string
  | SetAIResponse "AIResponse option"
  | SelectAction Api string
  | SetTasks "TaskNode list"
  | AddTask TaskNode
  | CompleteTask string
  | CompleteTaskTimer string "TaskNode list"
  | CoreStateTimer
  | FetchTasks int "thrown + BackendTask list option"
  | ShowReflection string
  | ShowIdentity int
  | DismissOverlay
  | RecordInteraction int
  | CheckSilence int

fun perform :: "CanvasAction \<Rightarrow> CanvasStore \<Rightarrow> CanvasStore" where
  "perform (SetState now st) s = setState now st s"
| "perform (SetUrgency u) s = setUrgency u s"
| "perform (SetError e) s = setError e s"
| "perform (OpenInput now) s = openInput now s"
| "perform CloseInput s = closeInput s"
| "perform (SubmitInput api now input source) s = snd (submitInput api now input source s)"
| "perform (StartListening now) s = startListening now s"
| "perform (StopListening api now) s = stopListening api now s"
| "perform (SetTranscript t) s = setTranscript t s"
| "perform (SetAIResponse r) s = setAIResponse r s"
| "perform (SelectAction api actionId) s = selectAction api actionId s"
| "perform (SetTasks ts) s = setTasks ts s"
| "perform (AddTask task) s = addTask task s"
| "perform (CompleteTask taskId) s = completeTask_immediate taskId s"
| "perform (CompleteTaskTimer taskId captured) s = completeTask_timeout taskId captured s"
| "perform CoreStateTimer s = coreState_timeout s"
| "perform (FetchTasks now response) s = fetchTasks now response s"
| "perform (ShowReflection insight) s = showReflection insight s"
| "perform (ShowIdentity now) s = showIdentity now s"
| "perform DismissOverlay s = dismissOverlay s"
| "perform (RecordInteraction now) s = recordInteraction now s"
| "perform (CheckSilence now) s = checkSilence now s"

section \<open>Orbital layout (canvas/TaskOrbits.tsx)\<close>

text \<open>
  \<open>positionedTasks\<close> places every task on a circle around the centre of the canvas. The
  radius of that circle is computed from the task's priority and the canvas size alone; the
  constants and the expression are those of the source.
\<close>

record CanvasSize =
  width :: real
  height :: real

definition minRadius :: real where
  "minRadius = 120"

definition maxRadius :: "CanvasSize \<Rightarrow> real" where
  "maxRadius canvasSize = min (width canvasSize) (height canvasSize) * (4 / 10)"

definition radius :: "CanvasSize \<Rightarrow> TaskNode \<Rightarrow> real" where
  "radius canvasSize task =
     minRadius + (1 - node_priority task) * (maxRadius canvasSize - minRadius)"

section \<open>Tasks of the backend (types/index.ts)\<close>

datatype TaskStatus = Pending | In_progress | Completed | Abandoned | Deferred

datatype Level = Low | Medium | High

record Task =
  task_id :: string
  task_title :: string
  task_description :: "string option"
  task_status :: TaskStatus
  task_priority :: real
  task_orbital_distance :: real
  task_estimated_minutes :: "int option"
  task_actual_minutes :: "int option"
  task_energy_required :: Level
  task_focus_required :: Level
  task_context_tags :: "string list"
  task_scheduled_for :: "string option"
  task_due_date :: "string option"
  task_created_at :: string
  task_started_at :: "string option"
  task_completed_at :: "string option"
  task_goal_id :: "string option"

section \<open>The orbit view (TaskOrbit)\<close>

text \<open>
  The component returns \<open>null\<close> for an empty list, and otherwise one \<open>OrbitingTask\<close>
  element for each task of \<open>tasks.slice(0, 8)\<close>, with the props below.
\<close>

record OrbitingTaskProps =
  prop_key :: string
  prop_task :: Task
  prop_index :: nat
  prop_total :: nat

definition TaskOrbit :: "Task list \<Rightarrow> OrbitingTaskProps list option" where
  "TaskOrbit taskList =
     (if length taskList = 0 then None
      else Some (map (\<lambda>(index, task).
                        \<lparr> prop_key = task_id task, prop_task = task, prop_index = index,
                          prop_total = min (length taskList) 8 \<rparr>)
                     (enumerate 0 (take 8 taskList))))"

section \<open>The task store (taskStore)\<close>

text \<open>
  \<open>Array.prototype.sort\<close> sorts the array it is called on in place, so the arrays live in
  an explicit heap: an address is an index into the list of allocated arrays, and the store
  holds the address of its task array. The spread \<open>[...xs]\<close> and \<open>filter\<close> allocate a
  new array each; \<open>sort\<close> overwrites the array it is given and returns its address. The
  sort is stable, and the comparator \<open>a.orbital_distance - b.orbital_distance\<close> orders by
  the key, which is what \<open>sort_key\<close> does.
\<close>

type_synonym addr = nat

type_synonym heap = "Task list list"

record TaskState =
  ts_tasks :: addr
  ts_focusedTask :: "Task option"
  ts_isLoading :: bool
  ts_error :: "string option"

definition alloc :: "Task list \<Rightarrow> heap \<Rightarrow> addr \<times> heap" where
  "alloc xs h = (length h, h @ [xs])"

definition array_filter :: "(Task \<Rightarrow> bool) \<Rightarrow> addr \<Rightarrow> heap \<Rightarrow> addr \<times> heap" where
  "array_filter p a h = alloc (filter p (h ! a)) h"

definition array_sort :: "(Task \<Rightarrow> real) \<Rightarrow> addr \<Rightarrow> heap \<Rightarrow> addr \<times> heap" where
  "array_sort k a h = (a, h[a := sort_key k (h ! a)])"

definition getPendingTasks :: "TaskState \<Rightarrow> heap \<Rightarrow> addr \<times> heap" where
  "getPendingTasks st h =
     array_filter (\<lambda>t. task_status t = Pending \<or> task_status t = In_progress) (ts_tasks st) h"

definition getTasksByOrbitalDistance :: "TaskState \<Rightarrow> heap \<Rightarrow> addr \<times> heap" where
  "getTasksByOrbitalDistance st h =
     (case alloc (h ! ts_tasks st) h of
        (copy, h1) \<Rightarrow>
          (case array_filter (\<lambda>t. task_status t = Pending \<or> task_status t = In_progress) copy h1 of
             (filtered, h2) \<Rightarrow> array_sort task_orbital_distance filtered h2))"

section \<open>The service worker's fetch handling (public/sw.js)\<close>

text \<open>
  A request carries its method, its URL (the key under which the Cache API stores a
  response), the path of that URL and its mode. \<open>fetch(request)\<close> resolves with a
  response or rejects; the network is the function \<open>net\<close>, with \<open>None\<close> for a
  rejection. \<open>caches\<close> is the list of the named caches in the order of their creation;
  \<open>caches.match\<close> returns the first match in that order, \<open>caches.open\<close> creates a
  missing cache at the end, and \<open>cache.put\<close> replaces the entry of the URL.
\<close>

record Request =
  req_method :: string
  req_url :: string
  req_pathname :: string
  req_mode :: string

record Response =
  resp_status :: nat
  resp_statusText :: string
  resp_headers :: "(string \<times> string) list"
  resp_body :: string

definition ok :: "Response \<Rightarrow> bool" where
  "ok r = (200 \<le> resp_status r \<and> resp_status r \<le> 299)"

type_synonym Network = "Request \<Rightarrow> Response option"

type_synonym Cache = "(string \<times> Response) list"

type_synonym CacheStorage = "(string \<times> Cache) list"

definition CACHE_VERSION :: string where
  "CACHE_VERSION = ''orbit-v1''"

definition STATIC_CACHE :: string where
  "STATIC_CACHE = CACHE_VERSION @ ''-static''"

definition DYNAMIC_CACHE :: string where
  "DYNAMIC_CACHE = CACHE_VERSION @ ''-dynamic''"

definition OFFLINE_CACHE :: string where
  "OFFLINE_CACHE = CACHE_VERSION @ ''-offline''"

definition OFFLINE_CAPABLE_ROUTES :: "string list" where
  "OFFLINE_CAPABLE_ROUTES =
     [''/api/v1/intent/active'', ''/api/v1/planner/tasks/today'', ''/api/v1/memory/recent'']"

fun caches_match :: "CacheStorage \<Rightarrow> string \<Rightarrow> Response option" where
  "caches_match [] u = None"
| "caches_match ((name, c) # rest) u =
     (case map_of c u of Some r \<Rightarrow> Some r | None \<Rightarrow> caches_match rest u)"

definition caches_open :: "string \<Rightarrow> CacheStorage \<Rightarrow> CacheStorage" where
  "caches_open name cs = (if map_of cs name = None then cs @ [(name, [])] else cs)"

definition cache_put :: "string \<Rightarrow> string \<Rightarrow> Response \<Rightarrow> CacheStorage \<Rightarrow> CacheStorage" where
  "cache_put name u r cs =
     map (\<lambda>(n, c). if n = name then (n, (u, r) # filter (\<lambda>(k, v). k \<noteq> u) c) else (n, c))
         (caches_open name cs)"

subsection \<open>String tests\<close>

definition startsWith :: "string \<Rightarrow> string \<Rightarrow> bool" where
  "startsWith s p = (take (length p) s = p)"

definition endsWith :: "string \<Rightarrow> string \<Rightarrow> bool" where
  "endsWith s p = (length p \<le> length s \<and> drop (length s - length p) s = p)"

fun string_includes :: "string \<Rightarrow> string \<Rightarrow> bool" where
  "string_includes [] p = (p = [])"
| "string_includes (c # cs) p = (startsWith (c # cs) p \<or> string_includes cs p)"

definition ascii_lower :: "char \<Rightarrow> char" where
  "ascii_lower c =
     (case map_of (zip ''ABCDEFGHIJKLMNOPQRSTUVWXYZ'' ''abcdefghijklmnopqrstuvwxyz'') c of
        Some l \<Rightarrow> l
      | None \<Rightarrow> c)"

text \<open>The test \<open>/\.(js|css|...|eot)$/i\<close>: the path ends, ignoring case, in a dot and one of the extensions.\<close>

definition isStaticAsset :: "string \<Rightarrow> bool" where
  "isStaticAsset pathname =
     list_ex (\<lambda>ext. endsWith (map ascii_lower pathname) (CHR ''.'' # ext))
       [''js'', ''css'', ''png'', ''jpg'', ''jpeg'', ''gif'', ''svg'', ''ico'',
        ''woff'', ''woff2'', ''ttf'', ''eot'']"

subsection \<open>The strategies\<close>

text \<open>
  What a strategy did is recorded with its result: the response given to
  \<open>event.respondWith\<close> (or a network error, when the promise rejects or resolves with
  \<open>undefined\<close>), the cache lookups and network fetches in the order they were made, and
  the caches afterwards. A \<open>Headers\<close> object keeps header names in lower case.
\<close>

datatype Outcome = Responded Response | NetworkError | NotIntercepted

datatype Step = CacheLookup | NetworkFetch

record Handled =
  outcome :: Outcome
  steps :: "Step list"
  caches :: CacheStorage

definition headers_set :: "string \<Rightarrow> string \<Rightarrow> (string \<times> string) list \<Rightarrow> (string \<times> string) list" where
  "headers_set k v hs =
     (if map_of hs k = None then hs @ [(k, v)]
      else map (\<lambda>(k', v'). if k' = k then (k', v) else (k', v')) hs)"

definition quoted :: "string \<Rightarrow> string" where
  "quoted x = CHR 0x22 # x @ [CHR 0x22]"

definition offline_json :: string where
  "offline_json =
     ''{'' @ quoted ''error'' @ '':'' @ quoted ''offline'' @ '','' @
     quoted ''message'' @ '':'' @
     quoted ''You are offline. This data will sync when connected.'' @ '','' @
     quoted ''cached'' @ '':false}''"

definition cacheFirst :: "Request \<Rightarrow> Network \<Rightarrow> CacheStorage \<Rightarrow> Handled" where
  "cacheFirst request net cs =
     (case caches_match cs (req_url request) of
        Some cached \<Rightarrow> \<lparr> outcome = Responded cached, steps = [CacheLookup], caches = cs \<rparr>
      | None \<Rightarrow>
          (case net request of
             Some response \<Rightarrow>
               \<lparr> outcome = Responded response, steps = [CacheLookup, NetworkFetch],
                 caches = (if ok response
                           then cache_put STATIC_CACHE (req_url request) response cs else cs) \<rparr>
           | None \<Rightarrow>
               \<lparr> outcome = Responded \<lparr> resp_status = 503, resp_statusText = [],
                                        resp_headers = [(''content-type'', ''text/plain;charset=UTF-8'')],
                                        resp_body = ''Offline'' \<rparr>,
                 steps = [CacheLookup, NetworkFetch], caches = cs \<rparr>))"

definition networkFirst :: "Request \<Rightarrow> Network \<Rightarrow> CacheStorage \<Rightarrow> Handled" where
  "networkFirst request net cs =
     (case net request of
        Some response \<Rightarrow>
          \<lparr> outcome = Responded response, steps = [NetworkFetch],
            caches = (if ok response
                      then cache_put DYNAMIC_CACHE (req_url request) response cs else cs) \<rparr>
      | None \<Rightarrow>
          (case caches_match cs (req_url request) of
             Some cached \<Rightarrow>
               \<lparr> outcome = Responded cached, steps = [NetworkFetch, CacheLookup], caches = cs \<rparr>
           | None \<Rightarrow>
               \<lparr> outcome = NetworkError, steps = [NetworkFetch, CacheLookup], caches = cs \<rparr>))"

definition networkFirstWithOfflineFallback :: "Request \<Rightarrow> Network \<Rightarrow> CacheStorage \<Rightarrow> Handled" where
  "networkFirstWithOfflineFallback request net cs =
     (case net request of
        Some response \<Rightarrow>
          \<lparr> outcome = Responded response, steps = [NetworkFetch],
            caches = (if ok response
                      then cache_put DYNAMIC_CACHE (req_url request) response cs else cs) \<rparr>
      | None \<Rightarrow>
          (case caches_match cs (req_url request) of
             Some cached \<Rightarrow>
               \<lparr> outcome = Responded cached, steps = [NetworkFetch, CacheLookup], caches = cs \<rparr>
           | None \<Rightarrow>
               \<lparr> outcome = (case caches_match cs ''/offline.html'' of
                              Some page \<Rightarrow> Responded page
                            | None \<Rightarrow> NetworkError),
                 steps = [NetworkFetch, CacheLookup, CacheLookup], caches = cs \<rparr>))"

definition handleApiRequest :: "Request \<Rightarrow> Network \<Rightarrow> CacheStorage \<Rightarrow> Handled" where
  "handleApiRequest request net cs =
     (let isOfflineCapable =
            list_ex (\<lambda>route. string_includes (req_pathname request) route) OFFLINE_CAPABLE_ROUTES in
      case net request of
        Some response \<Rightarrow>
          \<lparr> outcome = Responded response, steps = [NetworkFetch],
            caches = (if ok response \<and> isOfflineCapable
                      then cache_put OFFLINE_CACHE (req_url request) response cs else cs) \<rparr>
      | None \<Rightarrow>
          (case caches_match cs (req_url request) of
             Some cached \<Rightarrow>
               \<lparr> outcome = Responded
                   (cached\<lparr> resp_headers :=
                              headers_set ''x-orbit-offline'' ''true'' (resp_headers cached) \<rparr>),
                 steps = [NetworkFetch, CacheLookup], caches = cs \<rparr>
           | None \<Rightarrow>
               \<lparr> outcome = Responded \<lparr> resp_status = 503, resp_statusText = [],
                                        resp_headers = [(''content-type'', ''application/json'')],
                                        resp_body = offline_json \<rparr>,
                 steps = [NetworkFetch, CacheLookup], caches = cs \<rparr>))"

text \<open>The \<open>fetch\<close> event listener: the branches in the order of the source.\<close>

definition fetch_listener :: "Request \<Rightarrow> Network \<Rightarrow> CacheStorage \<Rightarrow> Handled" where
  "fetch_listener request net cs =
     (if req_method request \<noteq> ''GET''
      then \<lparr> outcome = NotIntercepted, steps = [], caches = cs \<rparr>
      else if startsWith (req_pathname request) ''/api/'' then handleApiRequest request net cs
      else if isStaticAsset (req_pathname request) then cacheFirst request net cs
      else if req_mode request = ''navigate''
      then networkFirstWithOfflineFallback request net cs
      else networkFirst request net cs)"

section \<open>The offline queue (offlineStorage, useOffline, public/sw.js)\<close>

text \<open>
  The IndexedDB database \<open>orbit-offline\<close> holds the object stores \<open>pending_intents\<close>
  (key path \<open>id\<close>, generated) and \<open>pending_tasks\<close> (key path \<open>id\<close>). A store is the
  list of its records in key order; a record's key is its \<open>id\<close> field. JSON values that
  the code only passes on (\<open>context\<close>, \<open>data\<close>) are kept as opaque strings.
\<close>

type_synonym json = string

datatype TaskAction = Start | Complete | Abandon | Pause

record PendingIntent =
  pi_id :: "nat option"
  pi_text :: string
  pi_context :: "json option"
  pi_createdAt :: string

record PendingTask =
  pt_id :: string
  pt_action :: TaskAction
  pt_data :: "json option"
  pt_createdAt :: string

record OfflineDB =
  pending_intents :: "PendingIntent list"
  pending_tasks :: "PendingTask list"

definition getPendingIntents :: "OfflineDB \<Rightarrow> PendingIntent list" where
  "getPendingIntents db = pending_intents db"

definition removePendingIntent :: "nat \<Rightarrow> OfflineDB \<Rightarrow> OfflineDB" where
  "removePendingIntent k db =
     db\<lparr> pending_intents := filter (\<lambda>r. pi_id r \<noteq> Some k) (pending_intents db) \<rparr>"

definition getPendingTasks_db :: "OfflineDB \<Rightarrow> PendingTask list" where
  "getPendingTasks_db db = pending_tasks db"

definition removePendingTask :: "string \<Rightarrow> OfflineDB \<Rightarrow> OfflineDB" where
  "removePendingTask k db =
     db\<lparr> pending_tasks := filter (\<lambda>r. pt_id r \<noteq> k) (pending_tasks db) \<rparr>"

definition getPendingSyncCount :: "OfflineDB \<Rightarrow> nat \<times> nat" where
  "getPendingSyncCount db = (length (getPendingIntents db), length (getPendingTasks_db db))"

subsection \<open>The backend as seen by a POST\<close>

text \<open>
  A POST either fails on the network or is answered with a status. \<open>fetch\<close> rejects in
  the first case and resolves with the response in the second, whose \<open>ok\<close> is true for
  the statuses 200 to 299; axios (\<open>api.post\<close>) resolves for those statuses only and
  rejects otherwise.
\<close>

datatype PostBody = IntentBody string "json option" | DataBody "json option"

record PostRequest =
  post_url :: string
  post_body :: PostBody

datatype PostResult = NetFail | HttpStatus nat

type_synonym Backend = "PostRequest \<Rightarrow> PostResult"

definition succeeds :: "PostResult \<Rightarrow> bool" where
  "succeeds r = (case r of NetFail \<Rightarrow> False | HttpStatus n \<Rightarrow> 200 \<le> n \<and> n \<le> 299)"

definition action_toString :: "TaskAction \<Rightarrow> string" where
  "action_toString a =
     (case a of Start \<Rightarrow> ''start'' | Complete \<Rightarrow> ''complete''
      | Abandon \<Rightarrow> ''abandon'' | Pause \<Rightarrow> ''pause'')"

subsection \<open>syncPendingData (useOffline)\<close>

text \<open>
  \<open>api.post\<close> prefixes the base URL \<open>/api\<close>. Each loop runs over the list read before
  it starts; a rejected POST is caught inside the loop body, and the loop goes on. The
  result records every POST made, in order. The calls to the storage itself are taken to
  succeed.
\<close>

record OfflineState =
  isOnline :: bool
  hasPendingSync :: bool
  pendingCount :: "nat \<times> nat"
  isSyncing :: bool
  lastSyncedAt :: "int option"

definition intent_request :: "PendingIntent \<Rightarrow> PostRequest" where
  "intent_request intent =
     \<lparr> post_url = ''/api'' @ ''/orbit/process'',
       post_body = IntentBody (pi_text intent) (pi_context intent) \<rparr>"

definition task_request :: "PendingTask \<Rightarrow> PostRequest" where
  "task_request task =
     \<lparr> post_url = ''/api'' @ ''/executor/tasks/'' @ pt_id task @ ''/'' @ action_toString (pt_action task),
       post_body = DataBody (pt_data task) \<rparr>"

text \<open>\<open>if (intent.id)\<close>: an absent id and the id 0 are falsy.\<close>

fun syncIntents :: "Backend \<Rightarrow> PendingIntent list \<Rightarrow> OfflineDB \<times> PostRequest list
                      \<Rightarrow> OfflineDB \<times> PostRequest list" where
  "syncIntents backend [] acc = acc"
| "syncIntents backend (intent # rest) (db, posts) =
     (if succeeds (backend (intent_request intent))
      then syncIntents backend rest
             ((case pi_id intent of
                 None \<Rightarrow> db
               | Some k \<Rightarrow> if k = 0 then db else removePendingIntent k db),
              posts @ [intent_request intent])
      else syncIntents backend rest (db, posts @ [intent_request intent]))"

fun syncTasks :: "Backend \<Rightarrow> PendingTask list \<Rightarrow> OfflineDB \<times> PostRequest list
                    \<Rightarrow> OfflineDB \<times> PostRequest list" where
  "syncTasks backend [] acc = acc"
| "syncTasks backend (task # rest) (db, posts) =
     (if succeeds (backend (task_request task))
      then syncTasks backend rest (removePendingTask (pt_id task) db, posts @ [task_request task])
      else syncTasks backend rest (db, posts @ [task_request task]))"

record SyncRun =
  returned :: bool
  db_after :: OfflineDB
  state_after :: OfflineState
  posted :: "PostRequest list"

definition syncPendingData :: "bool \<Rightarrow> int \<Rightarrow> Backend \<Rightarrow> OfflineDB \<Rightarrow> OfflineState \<Rightarrow> SyncRun" where
  "syncPendingData navigator_onLine now backend db st =
     (if \<not> navigator_onLine
      then \<lparr> returned = False, db_after = db, state_after = st, posted = [] \<rparr>
      else
        (let st1 = st\<lparr> isSyncing := True \<rparr> in
         case syncIntents backend (getPendingIntents db) (db, []) of
           (db1, posts1) \<Rightarrow>
             (case syncTasks backend (getPendingTasks_db db1) (db1, posts1) of
                (db2, posts2) \<Rightarrow>
                  (let newPendingCount = getPendingSyncCount db2 in
                   \<lparr> returned = True, db_after = db2,
                     state_after =
                       st1\<lparr> isSyncing := False,
                           hasPendingSync := (fst newPendingCount > 0 \<or> snd newPendingCount > 0),
                           pendingCount := newPendingCount,
                           lastSyncedAt := Some now \<rparr>,
                     posted = posts2 \<rparr>))))"

subsection \<open>syncOfflineIntents and syncOfflineTasks (service worker)\<close>

text \<open>
  The service worker opens the database with \<open>indexedDB.open\<close> itself (\<open>openDB\<close>), so
  \<open>store\<close> is a plain \<open>IDBObjectStore\<close>: \<open>store.getAll()\<close> returns a request
  object, whose result arrives through its \<open>onsuccess\<close> callback (as \<open>openDB\<close> and
  every method of offlineStorage receive it). The request object has no \<open>then\<close>, so
  \<open>await\<close> yields the request object itself, and \<open>for ... of\<close> over a value that is
  not iterable throws a TypeError. The loop header stands outside the \<open>try\<close>.
\<close>

datatype 'a JsValue = ArrayValue "'a list" | IDBRequest "'a list"

datatype JsError = TypeError

definition objectStore_getAll :: "'a list \<Rightarrow> 'a JsValue" where
  "objectStore_getAll records = IDBRequest records"

definition await :: "'a JsValue \<Rightarrow> 'a JsValue" where
  "await v = v"

definition iterate :: "'a JsValue \<Rightarrow> JsError + 'a list" where
  "iterate v = (case v of ArrayValue xs \<Rightarrow> Inr xs | IDBRequest pending \<Rightarrow> Inl TypeError)"

text \<open>
  The service worker reads \<open>intent.data\<close>, a field the stored intents do not have, so
  the body it would send is \<open>JSON.stringify(undefined)\<close>.
\<close>

definition sw_intent_request :: "PendingIntent \<Rightarrow> PostRequest" where
  "sw_intent_request intent = \<lparr> post_url = ''/api/v1/orbit/process'', post_body = DataBody None \<rparr>"

definition sw_task_request :: "PendingTask \<Rightarrow> PostRequest" where
  "sw_task_request task =
     \<lparr> post_url = ''/api/v1/executor/tasks/'' @ pt_id task @ ''/'' @ action_toString (pt_action task),
       post_body = DataBody (pt_data task) \<rparr>"

fun sw_intents_loop :: "Backend \<Rightarrow> PendingIntent list \<Rightarrow> OfflineDB \<times> PostRequest list
                          \<Rightarrow> OfflineDB \<times> PostRequest list" where
  "sw_intents_loop backend [] acc = acc"
| "sw_intents_loop backend (intent # rest) (db, posts) =
     (if succeeds (backend (sw_intent_request intent))
      then sw_intents_loop backend rest
             (db\<lparr> pending_intents := filter (\<lambda>r. pi_id r \<noteq> pi_id intent) (pending_intents db) \<rparr>,
              posts @ [sw_intent_request intent])
      else sw_intents_loop backend rest (db, posts @ [sw_intent_request intent]))"

fun sw_tasks_loop :: "Backend \<Rightarrow> PendingTask list \<Rightarrow> OfflineDB \<times> PostRequest list
                        \<Rightarrow> OfflineDB \<times> PostRequest list" where
  "sw_tasks_loop backend [] acc = acc"
| "sw_tasks_loop backend (task # rest) (db, posts) =
     (if succeeds (backend (sw_task_request task))
      then sw_tasks_loop backend rest
             (removePendingTask (pt_id task) db, posts @ [sw_task_request task])
      else sw_tasks_loop backend rest (db, posts @ [sw_task_request task]))"

record SwRun =
  settled :: "JsError + unit"
  sw_db_after :: OfflineDB
  sw_posted :: "PostRequest list"

definition syncOfflineIntents :: "Backend \<Rightarrow> OfflineDB \<Rightarrow> SwRun" where
  "syncOfflineIntents backend db =
     (case iterate (await (objectStore_getAll (pending_intents db))) of
        Inl e \<Rightarrow> \<lparr> settled = Inl e, sw_db_after = db, sw_posted = [] \<rparr>
      | Inr intents \<Rightarrow>
          (case sw_intents_loop backend intents (db, []) of
             (db', posts) \<Rightarrow> \<lparr> settled = Inr (), sw_db_after = db', sw_posted = posts \<rparr>))"

definition syncOfflineTasks :: "Backend \<Rightarrow> OfflineDB \<Rightarrow> SwRun" where
  "syncOfflineTasks backend db =
     (case iterate (await (objectStore_getAll (pending_tasks db))) of
        Inl e \<Rightarrow> \<lparr> settled = Inl e, sw_db_after = db, sw_posted = [] \<rparr>
      | Inr queued \<Rightarrow>
          (case sw_tasks_loop backend queued (db, []) of
             (db', posts) \<Rightarrow> \<lparr> settled = Inr (), sw_db_after = db', sw_posted = posts \<rparr>))"

section \<open>Example inputs\<close>




definition example_interpretation :: Interpretation where
  "example_interpretation =
     \<lparr> interp_interpretation = Some ''Focus on the report'',
       interp_suggested_tasks = Some [\<lparr> sug_id = None, sug_title = ''Draft outline'',
                                       sug_estimated_minutes = Some 25 \<rparr>],
       interp_confidence = None \<rparr>"

definition example_api ::
  "thrown + string \<Rightarrow> thrown + Interpretation \<Rightarrow> thrown + string option \<Rightarrow> Api" where
  "example_api intent interp created =
     \<lparr> createIntent = (\<lambda>input source. intent),
       interpretIntent = (\<lambda>intentId. interp),
       createTask = (\<lambda>d. created) \<rparr>"

definition example_node :: "string \<Rightarrow> real \<Rightarrow> TaskNode" where
  "example_node ident p =
     \<lparr> node_id = ident, node_title = ''node'', node_priority = p, node_urgency = 1 / 2,
       node_age = Some 0, node_status = Active \<rparr>"

definition two_node_store :: CanvasStore where
  "two_node_store =
     (initialStore 0)\<lparr> tasks := [example_node ''t0'' (1 / 2), example_node ''t1'' (8 / 10)] \<rparr>"

definition example_task :: "string \<Rightarrow> TaskStatus \<Rightarrow> real \<Rightarrow> Task" where
  "example_task ident st od =
     \<lparr> task_id = ident, task_title = ''task'', task_description = None, task_status = st,
       task_priority = 1 / 2, task_orbital_distance = od, task_estimated_minutes = None,
       task_actual_minutes = None, task_energy_required = Low, task_focus_required = Low,
       task_context_tags = [], task_scheduled_for = None, task_due_date = None,
       task_created_at = ''2024-01-01T00:00:00Z'', task_started_at = None,
       task_completed_at = None, task_goal_id = None \<rparr>"

definition nine_tasks :: "Task list" where
  "nine_tasks =
     map (\<lambda>ident. example_task ident Pending 1)
       [''a'', ''b'', ''c'', ''d'', ''e'', ''f'', ''g'', ''h'', ''i'']"

definition example_heap :: heap where
  "example_heap =
     [[example_task ''a'' Pending 3, example_task ''b'' Completed 1,
       example_task ''c'' In_progress 2]]"

definition example_task_state :: TaskState where
  "example_task_state =
     \<lparr> ts_tasks = 0, ts_focusedTask = None, ts_isLoading = False, ts_error = None \<rparr>"

definition cached_response :: Response where
  "cached_response =
     \<lparr> resp_status = 200, resp_statusText = ''OK'',
       resp_headers = [(''content-type'', ''application/json'')], resp_body = ''[1]'' \<rparr>"

definition fresh_response :: Response where
  "fresh_response =
     \<lparr> resp_status = 200, resp_statusText = ''OK'',
       resp_headers = [(''content-type'', ''application/json'')], resp_body = ''[1,2]'' \<rparr>"

definition get_request :: "string \<Rightarrow> Request" where
  "get_request path =
     \<lparr> req_method = ''GET'', req_url = path, req_pathname = path, req_mode = ''cors'' \<rparr>"

definition caches_holding :: "string \<Rightarrow> string \<Rightarrow> CacheStorage" where
  "caches_holding name path = [(name, [(path, cached_response)])]"

definition network_up :: Network where
  "network_up = (\<lambda>request. Some fresh_response)"

definition network_down :: Network where
  "network_down = (\<lambda>request. None)"

definition accept_all :: Backend where
  "accept_all = (\<lambda>request. HttpStatus 200)"

definition queued_intent :: PendingIntent where
  "queued_intent =
     \<lparr> pi_id = Some 1, pi_text = ''call the dentist'', pi_context = None,
       pi_createdAt = ''2024-05-01T10:00:00.000Z'' \<rparr>"

definition queued_task :: PendingTask where
  "queued_task =
     \<lparr> pt_id = ''t1'', pt_action = Complete, pt_data = None,
       pt_createdAt = ''2024-05-01T10:00:00.000Z'' \<rparr>"

definition queue_db :: OfflineDB where
  "queue_db = \<lparr> pending_intents = [queued_intent], pending_tasks = [queued_task] \<rparr>"

section \<open>Verified properties\<close>

subsection \<open>Fetch handling of the service worker\<close>

text \<open>
  Claim C1 as stated fails on a GET request to an API route for which a cached response
  exists, with the network up:
  the listener fetches from the network, serves the fresh response and never looks into
  the cache.
\<close>

theorem fetch_listener_api_network_first:
  "req_method (get_request ''/api/v1/intent/active'') = ''GET''
   \<and> caches_match (caches_holding OFFLINE_CACHE ''/api/v1/intent/active'')
         (req_url (get_request ''/api/v1/intent/active'')) = Some cached_response
   \<and> outcome (fetch_listener (get_request ''/api/v1/intent/active'') network_up
                 (caches_holding OFFLINE_CACHE ''/api/v1/intent/active''))
       = Responded fresh_response
   \<and> steps (fetch_listener (get_request ''/api/v1/intent/active'') network_up
                 (caches_holding OFFLINE_CACHE ''/api/v1/intent/active''))
       = [NetworkFetch]
   \<and> fresh_response \<noteq> cached_response"
  by (simp add: get_request_def caches_holding_def network_up_def fetch_listener_def
        startsWith_def handleApiRequest_def cached_response_def fresh_response_def)

text \<open>
  Claim C1, as the code has it. The fetch handling is network-first with a cache fallback,
  except for static assets: for a GET request whose path is outside \<open>/api/\<close> and has a
  static-asset extension, a cached response, when there is one, is served and the network
  is not used; for every other GET request the network is fetched first and its response
  is served when the fetch succeeds, and the cache is consulted, and the cached response
  served, only when the fetch fails (for an \<open>/api/\<close> path with the header
  \<open>X-Orbit-Offline\<close> added).
\<close>

theorem fetch_listener_strategy:
  assumes "req_method request = ''GET''"
  shows
  "(\<not> startsWith (req_pathname request) ''/api/'' \<and> isStaticAsset (req_pathname request) \<longrightarrow>
      (\<forall>cached. caches_match cs (req_url request) = Some cached \<longrightarrow>
         outcome (fetch_listener request net cs) = Responded cached
       \<and> steps (fetch_listener request net cs) = [CacheLookup]))
   \<and> (startsWith (req_pathname request) ''/api/'' \<or> \<not> isStaticAsset (req_pathname request) \<longrightarrow>
        hd (steps (fetch_listener request net cs)) = NetworkFetch
      \<and> (\<forall>response. net request = Some response \<longrightarrow>
            outcome (fetch_listener request net cs) = Responded response
          \<and> steps (fetch_listener request net cs) = [NetworkFetch])
      \<and> (\<forall>cached. net request = None \<and> caches_match cs (req_url request) = Some cached \<longrightarrow>
            take 2 (steps (fetch_listener request net cs)) = [NetworkFetch, CacheLookup]
          \<and> outcome (fetch_listener request net cs) =
              Responded (if startsWith (req_pathname request) ''/api/''
                         then cached\<lparr> resp_headers :=
                                 headers_set ''x-orbit-offline'' ''true'' (resp_headers cached) \<rparr>
                         else cached)))"
  using assms
  by (auto simp add: fetch_listener_def cacheFirst_def networkFirst_def
        networkFirstWithOfflineFallback_def handleApiRequest_def Let_def
        split: option.splits)

theorem fetch_listener_strategy_witness:
  "outcome (fetch_listener (get_request ''/assets/app.JS'') network_up
              (caches_holding STATIC_CACHE ''/assets/app.JS'')) = Responded cached_response
   \<and> steps (fetch_listener (get_request ''/assets/app.JS'') network_up
              (caches_holding STATIC_CACHE ''/assets/app.JS'')) = [CacheLookup]
   \<and> outcome (fetch_listener (get_request ''/dashboard'') network_up
              (caches_holding DYNAMIC_CACHE ''/dashboard'')) = Responded fresh_response
   \<and> outcome (fetch_listener (get_request ''/dashboard'') network_down
              (caches_holding DYNAMIC_CACHE ''/dashboard'')) = Responded cached_response
   \<and> take 2 (steps (fetch_listener (get_request ''/dashboard'') network_down
              (caches_holding DYNAMIC_CACHE ''/dashboard''))) = [NetworkFetch, CacheLookup]"
proof -
  have get: "req_method (get_request p) = ''GET''" for p
    by (simp add: get_request_def)
  have asset: "\<not> startsWith (req_pathname (get_request ''/assets/app.JS'')) ''/api/''
               \<and> isStaticAsset (req_pathname (get_request ''/assets/app.JS''))"
    by (simp add: get_request_def startsWith_def isStaticAsset_def endsWith_def ascii_lower_def)
  have page: "\<not> isStaticAsset (req_pathname (get_request ''/dashboard''))"
    by (simp add: get_request_def isStaticAsset_def endsWith_def ascii_lower_def)
  have hit: "caches_match (caches_holding name p) (req_url (get_request p)) = Some cached_response"
    for name p
    by (simp add: caches_holding_def get_request_def)
  have up: "network_up r = Some fresh_response" and down: "network_down r = None" for r
    by (simp_all add: network_up_def network_down_def)
  from fetch_listener_strategy [OF get, of "''/assets/app.JS''"
      "caches_holding STATIC_CACHE ''/assets/app.JS''" network_up] asset hit
  have a: "outcome (fetch_listener (get_request ''/assets/app.JS'') network_up
              (caches_holding STATIC_CACHE ''/assets/app.JS'')) = Responded cached_response
     \<and> steps (fetch_listener (get_request ''/assets/app.JS'') network_up
              (caches_holding STATIC_CACHE ''/assets/app.JS'')) = [CacheLookup]"
    by blast
  from fetch_listener_strategy [OF get, of "''/dashboard''"
      "caches_holding DYNAMIC_CACHE ''/dashboard''" network_up] page up
  have b: "outcome (fetch_listener (get_request ''/dashboard'') network_up
              (caches_holding DYNAMIC_CACHE ''/dashboard'')) = Responded fresh_response"
    by blast
  from fetch_listener_strategy [OF get, of "''/dashboard''"
      "caches_holding DYNAMIC_CACHE ''/dashboard''" network_down] page down hit
  have c: "outcome (fetch_listener (get_request ''/dashboard'') network_down
              (caches_holding DYNAMIC_CACHE ''/dashboard'')) = Responded cached_response
     \<and> take 2 (steps (fetch_listener (get_request ''/dashboard'') network_down
              (caches_holding DYNAMIC_CACHE ''/dashboard''))) = [NetworkFetch, CacheLookup]"
    by (simp add: get_request_def startsWith_def)
  from a b c show ?thesis by simp
qed

subsection \<open>Reconciliation of the offline queue\<close>

text \<open>
  In \<open>syncPendingData\<close> each loop posts every entry it read, whatever happened to the
  entries before it, and removes exactly the entries whose POST succeeded.
\<close>

lemma syncIntents_loop:
  assumes "\<forall>i \<in> set xs. \<exists>k. pi_id i = Some k \<and> k \<noteq> 0"
  shows "syncIntents backend xs (db, posts) =
           (db\<lparr> pending_intents :=
                  filter (\<lambda>r. pi_id r \<notin> pi_id ` {i \<in> set xs. succeeds (backend (intent_request i))})
                    (pending_intents db) \<rparr>,
            posts @ map intent_request xs)"
  using assms
proof (induction xs arbitrary: db posts)
  case Nil
  then show ?case by simp
next
  case (Cons x xs)
  then obtain k where k: "pi_id x = Some k" "k \<noteq> 0" by auto
  have rest: "\<forall>i \<in> set xs. \<exists>k. pi_id i = Some k \<and> k \<noteq> 0" using Cons.prems by simp
  show ?case
  proof (cases "succeeds (backend (intent_request x))")
    case True
    have "{i \<in> set (x # xs). succeeds (backend (intent_request i))}
            = insert x {i \<in> set xs. succeeds (backend (intent_request i))}"
      using True by auto
    then show ?thesis
      using True k Cons.IH [OF rest]
      by (auto simp add: removePendingIntent_def intro!: filter_cong)
  next
    case False
    have "{i \<in> set (x # xs). succeeds (backend (intent_request i))}
            = {i \<in> set xs. succeeds (backend (intent_request i))}"
      using False by auto
    then show ?thesis
      using False Cons.IH [OF rest] by simp
  qed
qed

lemma syncTasks_loop:
  "syncTasks backend xs (db, posts) =
     (db\<lparr> pending_tasks :=
            filter (\<lambda>r. pt_id r \<notin> pt_id ` {t \<in> set xs. succeeds (backend (task_request t))})
              (pending_tasks db) \<rparr>,
      posts @ map task_request xs)"
proof (induction xs arbitrary: db posts)
  case Nil
  then show ?case by simp
next
  case (Cons x xs)
  show ?case
  proof (cases "succeeds (backend (task_request x))")
    case True
    have "{i \<in> set (x # xs). succeeds (backend (task_request i))}
            = insert x {i \<in> set xs. succeeds (backend (task_request i))}"
      using True by auto
    then show ?thesis
      using True Cons.IH
      by (auto simp add: removePendingTask_def intro!: filter_cong)
  next
    case False
    have "{i \<in> set (x # xs). succeeds (backend (task_request i))}
            = {i \<in> set xs. succeeds (backend (task_request i))}"
      using False by auto
    then show ?thesis
      using False Cons.IH by simp
  qed
qed

lemma filter_by_key:
  assumes "distinct (map f xs)"
  shows "filter (\<lambda>r. f r \<notin> f ` {i \<in> set xs. P i}) xs = filter (\<lambda>r. \<not> P r) xs"
proof (rule filter_cong [OF refl])
  fix r assume r: "r \<in> set xs"
  have inj: "inj_on f (set xs)" using assms by (simp add: distinct_map)
  show "(f r \<notin> f ` {i \<in> set xs. P i}) = (\<not> P r)"
  proof
    assume "f r \<notin> f ` {i \<in> set xs. P i}"
    then show "\<not> P r" using r by auto
  next
    assume np: "\<not> P r"
    show "f r \<notin> f ` {i \<in> set xs. P i}"
    proof
      assume "f r \<in> f ` {i \<in> set xs. P i}"
      then obtain i where i: "i \<in> set xs" "P i" "f r = f i" by auto
      with inj r have "r = i" by (auto dest: inj_onD)
      with i np show False by simp
    qed
  qed
qed

text \<open>
  The sync pass of \<open>useOffline\<close>, on a queue as IndexedDB keeps it (keys are unique, and
  generated keys start at 1): every queued entry is posted once, in order, and the
  entries left in the queue are exactly those whose POST did not succeed.
\<close>

lemma syncPendingData_reconciles:
  assumes ids: "\<forall>i \<in> set (pending_intents db). \<exists>k. pi_id i = Some k \<and> k \<noteq> 0"
    and di: "distinct (map pi_id (pending_intents db))"
    and dt: "distinct (map pt_id (pending_tasks db))"
  shows "pending_intents (db_after (syncPendingData True now backend db st))
           = filter (\<lambda>i. \<not> succeeds (backend (intent_request i))) (pending_intents db)
       \<and> pending_tasks (db_after (syncPendingData True now backend db st))
           = filter (\<lambda>t. \<not> succeeds (backend (task_request t))) (pending_tasks db)
       \<and> posted (syncPendingData True now backend db st)
           = map intent_request (pending_intents db) @ map task_request (pending_tasks db)"
  using filter_by_key [OF di, of "\<lambda>i. succeeds (backend (intent_request i))"]
        filter_by_key [OF dt, of "\<lambda>i. succeeds (backend (task_request i))"]
  by (simp add: syncPendingData_def getPendingIntents_def getPendingTasks_db_def
        syncIntents_loop [OF ids] syncTasks_loop getPendingSyncCount_def Let_def)

lemma syncPendingData_example:
  "pending_intents (db_after (syncPendingData True 5 accept_all queue_db st)) = []
   \<and> pending_tasks (db_after (syncPendingData True 5 accept_all queue_db st)) = []
   \<and> map post_url (posted (syncPendingData True 5 accept_all queue_db st))
       = [''/api/orbit/process'', ''/api/executor/tasks/t1/complete'']"
proof -
  have ids: "\<forall>i \<in> set (pending_intents queue_db). \<exists>k. pi_id i = Some k \<and> k \<noteq> 0"
    by (simp add: queue_db_def queued_intent_def)
  have di: "distinct (map pi_id (pending_intents queue_db))"
    and dt: "distinct (map pt_id (pending_tasks queue_db))"
    by (simp_all add: queue_db_def)
  from syncPendingData_reconciles [OF ids di dt, of 5 accept_all st]
  show ?thesis
    by (simp add: queue_db_def accept_all_def succeeds_def intent_request_def task_request_def
          queued_task_def action_toString_def)
qed

text \<open>
  The service worker's two functions, on any queue and any backend: the promise rejects
  with the TypeError, nothing is posted and the queue is as it was.
\<close>

lemma service_worker_sync_always_rejects:
  "syncOfflineIntents backend db = \<lparr> settled = Inl TypeError, sw_db_after = db, sw_posted = [] \<rparr>
   \<and> syncOfflineTasks backend db = \<lparr> settled = Inl TypeError, sw_db_after = db, sw_posted = [] \<rparr>"
  by (simp add: syncOfflineIntents_def syncOfflineTasks_def objectStore_getAll_def await_def
        iterate_def)

text \<open>
  Claim C2 says that the service worker's \<open>syncOfflineIntents\<close> and
  \<open>syncOfflineTasks\<close> reconcile the queue in the same way. They do not: with one intent
  and one task action queued and a backend that accepts every POST, each of the two
  functions ends with a TypeError at the head of its loop, no request is posted and both
  entries stay queued.
\<close>

theorem service_worker_sync_never_posts:
  "succeeds (accept_all (sw_intent_request queued_intent))
   \<and> settled (syncOfflineIntents accept_all queue_db) = Inl TypeError
   \<and> sw_posted (syncOfflineIntents accept_all queue_db) = []
   \<and> pending_intents (sw_db_after (syncOfflineIntents accept_all queue_db)) = [queued_intent]
   \<and> succeeds (accept_all (sw_task_request queued_task))
   \<and> settled (syncOfflineTasks accept_all queue_db) = Inl TypeError
   \<and> sw_posted (syncOfflineTasks accept_all queue_db) = []
   \<and> pending_tasks (sw_db_after (syncOfflineTasks accept_all queue_db)) = [queued_task]"
  by (simp add: syncOfflineIntents_def syncOfflineTasks_def objectStore_getAll_def await_def
        iterate_def queue_db_def accept_all_def succeeds_def)

subsection \<open>Selecting an action\<close>





subsection \<open>Silence mode\<close>

text \<open>
  No action but \<open>checkSilence\<close> takes a store that is not \<open>silent\<close> to \<open>silent\<close>.
\<close>

lemma submitInput_not_silent:
  "state (snd (submitInput api now input source s)) \<noteq> Silent"
  by (simp add: submitInput_def submitInput_begin_def submitInput_catch_def
        recordInteraction_def Let_def split: sum.splits)

lemma selectAction_not_silent:
  "state s \<noteq> Silent \<Longrightarrow> state (selectAction api actionId s) \<noteq> Silent"
  by (simp add: selectAction_def split: option.splits sum.splits)

lemma fetchTasks_state: "state (fetchTasks now response s) = state s"
  by (simp add: fetchTasks_def split: sum.splits option.splits)

lemma silent_entered_only_by_checkSilence:
  assumes "state s \<noteq> Silent" and "state (perform a s) = Silent"
  shows "\<exists>now. a = CheckSilence now \<and> state s = Idle
               \<and> now - lastInteraction s > silenceThreshold s"
proof (cases a)
  case (CheckSilence now)
  then show ?thesis
    using assms by (auto simp add: checkSilence_def Let_def split: if_splits)
next
  case (SubmitInput api now input source)
  then show ?thesis using assms submitInput_not_silent by simp
next
  case (StopListening api now)
  then show ?thesis
    using assms submitInput_not_silent
    by (auto simp add: stopListening_def Let_def split: if_splits)
next
  case (SelectAction api actionId)
  then show ?thesis using assms selectAction_not_silent by auto
next
  case (FetchTasks now response)
  then show ?thesis using assms by (simp add: fetchTasks_state)
qed (insert assms, auto simp add: setState_def recordInteraction_def setUrgency_def
       setError_def openInput_def closeInput_def startListening_def setTranscript_def
       setAIResponse_def coreState_timeout_def setTasks_def addTask_def
       completeTask_immediate_def completeTask_timeout_def showReflection_def
       showIdentity_def dismissOverlay_def split: if_splits)

text \<open>
  Claim C4. \<open>checkSilence\<close> sets the canvas state to \<open>silent\<close> (and the core state
  with it) exactly when the state is \<open>idle\<close> and more than \<open>silenceThreshold\<close> has
  passed since \<open>lastInteraction\<close>, and leaves the store as it is otherwise; the
  threshold is 5 minutes from the start and is kept by both actions;
  \<open>recordInteraction\<close> takes a \<open>silent\<close> state back to \<open>idle\<close> and keeps any other
  state; and \<open>setState\<close>, which ends with \<open>recordInteraction\<close>, never leaves the
  store \<open>silent\<close>. Over all the actions of the store, a store that is not
  \<open>silent\<close> becomes \<open>silent\<close> only by \<open>checkSilence\<close>, from \<open>idle\<close>, after
  the threshold has passed.
\<close>

theorem checkSilence_spec:
  "(state s = Idle \<and> now - lastInteraction s > silenceThreshold s \<longrightarrow>
      checkSilence now s = s\<lparr> state := Silent, coreState := CoreSilent \<rparr>)
   \<and> (\<not> (state s = Idle \<and> now - lastInteraction s > silenceThreshold s) \<longrightarrow>
      checkSilence now s = s)
   \<and> (state s \<noteq> Silent \<longrightarrow>
        (state (checkSilence now s) = Silent
           \<longleftrightarrow> state s = Idle \<and> now - lastInteraction s > silenceThreshold s))
   \<and> silenceThreshold (initialStore t0) = 5 * 60 * 1000
   \<and> silenceThreshold (checkSilence now s) = silenceThreshold s
   \<and> silenceThreshold (recordInteraction now s) = silenceThreshold s
   \<and> (state s = Silent \<longrightarrow> state (recordInteraction now s) = Idle)
   \<and> (state s \<noteq> Silent \<longrightarrow> state (recordInteraction now s) = state s)
   \<and> state (setState now st s) \<noteq> Silent
   \<and> (\<forall>a. state s \<noteq> Silent \<and> state (perform a s) = Silent \<longrightarrow>
          (\<exists>t. a = CheckSilence t \<and> state s = Idle
                \<and> t - lastInteraction s > silenceThreshold s))"
proof -
  have local:
    "(state s = Idle \<and> now - lastInteraction s > silenceThreshold s \<longrightarrow>
        checkSilence now s = s\<lparr> state := Silent, coreState := CoreSilent \<rparr>)
     \<and> (\<not> (state s = Idle \<and> now - lastInteraction s > silenceThreshold s) \<longrightarrow>
        checkSilence now s = s)
     \<and> (state s \<noteq> Silent \<longrightarrow>
          (state (checkSilence now s) = Silent
             \<longleftrightarrow> state s = Idle \<and> now - lastInteraction s > silenceThreshold s))"
    by (auto simp add: checkSilence_def Let_def)
  have threshold:
    "silenceThreshold (initialStore t0) = 5 * 60 * 1000
     \<and> silenceThreshold (checkSilence now s) = silenceThreshold s
     \<and> silenceThreshold (recordInteraction now s) = silenceThreshold s"
    by (simp add: checkSilence_def recordInteraction_def initialStore_def Let_def)
  have wake:
    "(state s = Silent \<longrightarrow> state (recordInteraction now s) = Idle)
     \<and> (state s \<noteq> Silent \<longrightarrow> state (recordInteraction now s) = state s)
     \<and> state (setState now st s) \<noteq> Silent"
    by (simp add: recordInteraction_def setState_def)
  have global:
    "\<forall>a. state s \<noteq> Silent \<and> state (perform a s) = Silent \<longrightarrow>
          (\<exists>t. a = CheckSilence t \<and> state s = Idle
                \<and> t - lastInteraction s > silenceThreshold s)"
    using silent_entered_only_by_checkSilence by blast
  from local threshold wake global show ?thesis by simp
qed

theorem checkSilence_spec_witness:
  "state (checkSilence 300001 (initialStore 0)) = Silent
   \<and> checkSilence 300000 (initialStore 0) = initialStore 0
   \<and> state (recordInteraction 300002 (checkSilence 300001 (initialStore 0))) = Idle"
proof -
  have idle: "state (initialStore 0) = Idle" and last: "lastInteraction (initialStore 0) = 0"
    and thr: "silenceThreshold (initialStore 0) = 300000"
    by (simp_all add: initialStore_def)
  from checkSilence_spec [of "initialStore 0" 300001 0] idle last thr
  have a: "checkSilence 300001 (initialStore 0)
             = (initialStore 0)\<lparr> state := Silent, coreState := CoreSilent \<rparr>"
    by simp
  from checkSilence_spec [of "initialStore 0" 300000 0] idle last thr
  have b: "checkSilence 300000 (initialStore 0) = initialStore 0"
    by simp
  from checkSilence_spec [of "checkSilence 300001 (initialStore 0)" 300002 0] a
  have c: "state (recordInteraction 300002 (checkSilence 300001 (initialStore 0))) = Idle"
    by simp
  from a b c show ?thesis by simp
qed

subsection \<open>Urgency scoring\<close>

text \<open>
  What \<open>calculateUrgency\<close> computes: it starts from the task's priority, with 0.5 in
  its place when \<open>task.priority\<close> is falsy; the value is raised to at least 0.9 when the
  due date is less than 1 day away, to at least 0.7 when it is less than 3 days away and
  to at least 0.5 when it is less than 7 days away, and is left as it is when there is no
  due date, the date does not parse or it is 7 days away or more; the result is capped at
  1. For a priority that is present and not 0 this is the heuristic of claim C5, and for
  a priority in [0,1] the result lies in [0,1].
\<close>

lemma calculateUrgency_computes:
  fixes task :: "'a UrgencyInput_scheme" and now :: int
  defines "base \<equiv> (case in_priority task of None \<Rightarrow> 1 / 2
                     | Some p \<Rightarrow> if p = 0 then 1 / 2 else p)"
  shows
  "calculateUrgency now task \<le> 1
   \<and> (in_due_date task = None \<or> in_due_date task = Some InvalidDate \<longrightarrow>
        calculateUrgency now task = min base 1)
   \<and> (\<forall>due. in_due_date task = Some (DateMs due) \<longrightarrow>
        (real_of_int (due - now) / 86400000 < 1 \<longrightarrow>
           calculateUrgency now task = min (max base (9 / 10)) 1)
      \<and> (1 \<le> real_of_int (due - now) / 86400000 \<and> real_of_int (due - now) / 86400000 < 3 \<longrightarrow>
           calculateUrgency now task = min (max base (7 / 10)) 1)
      \<and> (3 \<le> real_of_int (due - now) / 86400000 \<and> real_of_int (due - now) / 86400000 < 7 \<longrightarrow>
           calculateUrgency now task = min (max base (5 / 10)) 1)
      \<and> (7 \<le> real_of_int (due - now) / 86400000 \<longrightarrow>
           calculateUrgency now task = min base 1))
   \<and> (\<forall>p. in_priority task = Some p \<and> 0 \<le> p \<and> p \<le> 1 \<longrightarrow>
        0 \<le> calculateUrgency now task \<and> calculateUrgency now task \<le> 1)"
  unfolding base_def
  by (auto simp add: calculateUrgency_def Let_def split: option.splits JsDate.splits)

lemma calculateUrgency_examples:
  "calculateUrgency 0 \<lparr> in_priority = Some (3 / 10), in_due_date = Some (DateMs 3600000),
                         in_created_at = DateMs 0 \<rparr> = 9 / 10
   \<and> calculateUrgency 0 \<lparr> in_priority = Some (3 / 10), in_due_date = Some (DateMs 172800000),
                         in_created_at = DateMs 0 \<rparr> = 7 / 10
   \<and> calculateUrgency 0 \<lparr> in_priority = None, in_due_date = None,
                         in_created_at = DateMs 0 \<rparr> = 1 / 2"
proof -
  let ?a = "\<lparr> in_priority = Some (3 / 10), in_due_date = Some (DateMs 3600000),
              in_created_at = DateMs 0 \<rparr>"
  let ?b = "\<lparr> in_priority = Some (3 / 10), in_due_date = Some (DateMs 172800000),
              in_created_at = DateMs 0 \<rparr>"
  let ?c = "\<lparr> in_priority = None, in_due_date = None, in_created_at = DateMs 0 \<rparr>"
  from calculateUrgency_computes [of 0 ?a] have 1: "calculateUrgency 0 ?a = 9 / 10" by simp
  from calculateUrgency_computes [of 0 ?b] have 2: "calculateUrgency 0 ?b = 7 / 10" by simp
  from calculateUrgency_computes [of 0 ?c] have 3: "calculateUrgency 0 ?c = 1 / 2" by simp
  from 1 2 3 show ?thesis by simp
qed

text \<open>
  Claim C5 says that \<open>calculateUrgency\<close> returns the task's priority, with 0.5 only
  when the priority is absent. The default \<open>task.priority || 0.5\<close> also replaces the
  priority 0, a value of the documented range 0 to 1: a task of priority 0 with no due
  date gets urgency 0.5, not 0, which puts it above a task of priority 0.1, whose urgency
  is 0.1.
\<close>

theorem calculateUrgency_zero_priority:
  "calculateUrgency 0 \<lparr> in_priority = Some 0, in_due_date = None, in_created_at = DateMs 0 \<rparr>
     = 1 / 2
   \<and> calculateUrgency 0 \<lparr> in_priority = Some (1 / 10), in_due_date = None,
                           in_created_at = DateMs 0 \<rparr> = 1 / 10"
  by (simp add: calculateUrgency_def)

subsection \<open>Orbital layout\<close>

text \<open>
  Where the smaller side of the canvas is at least 300, so that the maximum radius is not
  below the minimum radius, a higher priority gives a radius that is no larger, and every
  radius lies between the two.
\<close>

lemma radius_monotone_on_large_canvas:
  assumes "300 \<le> min (width c) (height c)"
    and "0 \<le> node_priority a" "node_priority a \<le> 1"
    and "0 \<le> node_priority b" "node_priority b \<le> 1"
    and "node_priority a \<le> node_priority b"
  shows "radius c b \<le> radius c a \<and> minRadius \<le> radius c a \<and> radius c a \<le> maxRadius c"
proof -
  have d: "0 \<le> maxRadius c - minRadius"
    using assms(1) by (simp add: maxRadius_def minRadius_def)
  have "(1 - node_priority b) * (maxRadius c - minRadius)
          \<le> (1 - node_priority a) * (maxRadius c - minRadius)"
    using assms(6) d by (intro mult_right_mono) simp_all
  moreover have "0 \<le> (1 - node_priority a) * (maxRadius c - minRadius)"
    using assms(3) d by simp
  moreover have "(1 - node_priority a) * (maxRadius c - minRadius)
                   \<le> 1 * (maxRadius c - minRadius)"
    using assms(2) d by (intro mult_right_mono) simp_all
  ultimately show ?thesis by (simp add: radius_def)
qed

text \<open>
  Claim C6 says that a higher priority never gives a larger radius and that every radius
  lies between 120 and the maximum radius. On a canvas whose smaller side is below 300 the
  code does the opposite: on a 200 by 600 canvas the maximum radius is 80, the task of
  priority 0.9 is placed at radius 116 and the task of priority 0.1 at radius 84; on the
  0 by 0 canvas of the first render the task of priority 1 is at radius 120 and the task
  of priority 0 at radius 0.
\<close>

theorem radius_inverted_on_small_canvas:
  "maxRadius \<lparr> width = 200, height = 600 \<rparr> = 80
   \<and> radius \<lparr> width = 200, height = 600 \<rparr> (example_node ''a'' (9 / 10)) = 116
   \<and> radius \<lparr> width = 200, height = 600 \<rparr> (example_node ''b'' (1 / 10)) = 84
   \<and> maxRadius \<lparr> width = 0, height = 0 \<rparr> = 0
   \<and> radius \<lparr> width = 0, height = 0 \<rparr> (example_node ''a'' 1) = 120
   \<and> radius \<lparr> width = 0, height = 0 \<rparr> (example_node ''b'' 0) = 0"
  by (simp add: radius_def maxRadius_def minRadius_def example_node_def)

subsection \<open>Submitting input\<close>

text \<open>
  Claim C7. \<open>submitInput\<close> first sets the canvas state to \<open>thinking\<close> and clears the
  error. If \<open>createIntent\<close> or \<open>interpretIntent\<close> fails, it ends with the error set
  to the failure's message (the fixed text for a thrown value that is not an Error), the
  canvas state and the core state \<open>idle\<close> and the task list as it was. If both
  succeed, it ends in state \<open>responding\<close> with an AI response whose \<open>intentId\<close> is
  the id of the created intent.
\<close>

theorem submitInput_transitions:
  "state (fst (submitInput api now input source s)) = Thinking
   \<and> error (fst (submitInput api now input source s)) = None
   \<and> (\<forall>e. createIntent api input source = Inl e
            \<or> (\<exists>intentId. createIntent api input source = Inr intentId
                           \<and> interpretIntent api intentId = Inl e) \<longrightarrow>
          error (snd (submitInput api now input source s))
            = Some (case e of Error message \<Rightarrow> message
                            | NonError \<Rightarrow> ''Failed to process your thought'')
        \<and> state (snd (submitInput api now input source s)) = Idle
        \<and> coreState (snd (submitInput api now input source s)) = CoreIdle
        \<and> tasks (snd (submitInput api now input source s)) = tasks s)
   \<and> (\<forall>intentId interpretation.
          createIntent api input source = Inr intentId
          \<and> interpretIntent api intentId = Inr interpretation \<longrightarrow>
          state (snd (submitInput api now input source s)) = Responding
        \<and> (\<exists>r. aiResponse (snd (submitInput api now input source s)) = Some r
                \<and> ai_intentId r = Some intentId))"
  by (auto simp add: submitInput_def submitInput_begin_def submitInput_catch_def
        recordInteraction_def error_message_def toAIResponse_def Let_def)

theorem submitInput_transitions_witness:
  "state (fst (submitInput (example_api (Inr ''i7'') (Inr example_interpretation) (Inr None)) 5
                 ''plan my day'' TextSource (initialStore 0))) = Thinking
   \<and> state (snd (submitInput (example_api (Inr ''i7'') (Inr example_interpretation) (Inr None)) 5
                 ''plan my day'' TextSource (initialStore 0))) = Responding
   \<and> map_option ai_intentId
        (aiResponse (snd (submitInput
           (example_api (Inr ''i7'') (Inr example_interpretation) (Inr None)) 5
           ''plan my day'' TextSource (initialStore 0)))) = Some (Some ''i7'')
   \<and> error (snd (submitInput (example_api (Inr ''i7'') (Inl (Error ''timeout'')) (Inr None)) 5
                 ''plan my day'' TextSource (initialStore 0))) = Some ''timeout''
   \<and> state (snd (submitInput (example_api (Inl NonError) (Inr example_interpretation) (Inr None)) 5
                 ''plan my day'' TextSource (initialStore 0))) = Idle"
proof -
  let ?ok = "example_api (Inr ''i7'') (Inr example_interpretation) (Inr None)"
  let ?f2 = "example_api (Inr ''i7'') (Inl (Error ''timeout'')) (Inr None)"
  let ?f1 = "example_api (Inl NonError) (Inr example_interpretation) (Inr None)"
  have a: "createIntent ?ok ''plan my day'' TextSource = Inr ''i7''"
          "interpretIntent ?ok ''i7'' = Inr example_interpretation"
    by (simp_all add: example_api_def)
  have b: "createIntent ?f2 ''plan my day'' TextSource = Inr ''i7''"
          "interpretIntent ?f2 ''i7'' = Inl (Error ''timeout'')"
    by (simp_all add: example_api_def)
  have c: "createIntent ?f1 ''plan my day'' TextSource = Inl NonError"
    by (simp add: example_api_def)
  from submitInput_transitions [of ?ok 5 "''plan my day''" TextSource "initialStore 0"] a
  have 1: "state (fst (submitInput ?ok 5 ''plan my day'' TextSource (initialStore 0))) = Thinking
     \<and> state (snd (submitInput ?ok 5 ''plan my day'' TextSource (initialStore 0))) = Responding
     \<and> map_option ai_intentId
        (aiResponse (snd (submitInput ?ok 5 ''plan my day'' TextSource (initialStore 0))))
         = Some (Some ''i7'')"
    by auto
  from submitInput_transitions [of ?f2 5 "''plan my day''" TextSource "initialStore 0"] b
  have 2: "error (snd (submitInput ?f2 5 ''plan my day'' TextSource (initialStore 0)))
             = Some ''timeout''"
    by auto
  from submitInput_transitions [of ?f1 5 "''plan my day''" TextSource "initialStore 0"] c
  have 3: "state (snd (submitInput ?f1 5 ''plan my day'' TextSource (initialStore 0))) = Idle"
    by auto
  from 1 2 3 show ?thesis by simp
qed

subsection \<open>The orbit view\<close>

lemma map_snd_enumerate: "map snd (enumerate n xs) = xs"
  by (simp add: enumerate_eq_zip)

text \<open>
  Claim C8. \<open>TaskOrbit\<close> renders nothing for an empty list; for any other list it
  renders the first 8 tasks of the list, in order, and no others: the rendered tasks are
  \<open>take 8\<close> of the list, at most 8 of them, the element at position \<open>i\<close> showing the
  task at position \<open>i\<close> with index \<open>i\<close>.
\<close>

theorem TaskOrbit_first_eight:
  "TaskOrbit [] = None
   \<and> (taskList \<noteq> [] \<longrightarrow>
        (\<exists>rendered. TaskOrbit taskList = Some rendered
           \<and> map prop_task rendered = take 8 taskList
           \<and> length rendered = min (length taskList) 8
           \<and> length rendered \<le> 8
           \<and> (\<forall>i < length rendered.
                 prop_task (rendered ! i) = taskList ! i \<and> prop_index (rendered ! i) = i)))"
  by (auto simp add: TaskOrbit_def comp_def case_prod_unfold map_snd_enumerate nth_enumerate_eq)

theorem TaskOrbit_first_eight_witness:
  "\<exists>rendered. TaskOrbit nine_tasks = Some rendered
     \<and> map (\<lambda>p. task_id (prop_task p)) rendered
         = [''a'', ''b'', ''c'', ''d'', ''e'', ''f'', ''g'', ''h'']"
proof -
  have ne: "nine_tasks \<noteq> []"
    by (simp add: nine_tasks_def)
  from TaskOrbit_first_eight [of nine_tasks] ne obtain rendered where
    r: "TaskOrbit nine_tasks = Some rendered" "map prop_task rendered = take 8 nine_tasks"
    by blast
  have "map (\<lambda>p. task_id (prop_task p)) rendered = map task_id (map prop_task rendered)"
    by simp
  also have "\<dots> = map task_id (take 8 nine_tasks)"
    by (simp only: r(2))
  also have "\<dots> = [''a'', ''b'', ''c'', ''d'', ''e'', ''f'', ''g'', ''h'']"
    by (simp add: nine_tasks_def example_task_def)
  finally have ids: "map (\<lambda>p. task_id (prop_task p)) rendered
                       = [''a'', ''b'', ''c'', ''d'', ''e'', ''f'', ''g'', ''h'']" .
  show ?thesis using r(1) ids by simp
qed

subsection \<open>Tasks by orbital distance\<close>

text \<open>
  Claim C9. Where the store's task list is an array of the heap,
  \<open>getTasksByOrbitalDistance\<close> returns a new array that holds exactly the tasks of the
  store whose status is \<open>pending\<close> or \<open>in_progress\<close> (each as often as the store
  holds it), in non-decreasing order of \<open>orbital_distance\<close> (the stable sort of the
  filtered list), and every array that existed before, the store's task list among them,
  is as it was.
\<close>

theorem getTasksByOrbitalDistance_sorted:
  assumes "ts_tasks st < length h"
  shows "case getTasksByOrbitalDistance st h of
           (result, h') \<Rightarrow>
             h' ! result =
               sort_key task_orbital_distance
                 (filter (\<lambda>t. task_status t = Pending \<or> task_status t = In_progress)
                    (h ! ts_tasks st))
           \<and> mset (h' ! result) =
               filter_mset (\<lambda>t. task_status t = Pending \<or> task_status t = In_progress)
                 (mset (h ! ts_tasks st))
           \<and> sorted (map task_orbital_distance (h' ! result))
           \<and> h' ! ts_tasks st = h ! ts_tasks st
           \<and> take (length h) h' = h
           \<and> result \<noteq> ts_tasks st"
  using assms
  by (simp add: getTasksByOrbitalDistance_def alloc_def array_filter_def array_sort_def
        nth_append)

theorem getTasksByOrbitalDistance_sorted_witness:
  "(case getTasksByOrbitalDistance example_task_state example_heap of
      (result, h') \<Rightarrow>
        map task_id (h' ! result) = [''c'', ''a'']
      \<and> h' ! ts_tasks example_task_state = example_heap ! ts_tasks example_task_state)"
proof -
  have valid: "ts_tasks example_task_state < length example_heap"
    by (simp add: example_task_state_def example_heap_def)
  have sorted_ids:
    "map task_id
       (sort_key task_orbital_distance
          (filter (\<lambda>t. task_status t = Pending \<or> task_status t = In_progress)
             (example_heap ! ts_tasks example_task_state))) = [''c'', ''a'']"
    by (simp add: example_task_state_def example_heap_def example_task_def)
  from getTasksByOrbitalDistance_sorted [OF valid] sorted_ids
  show ?thesis
    by (auto split: prod.splits)
qed

subsection \<open>Completing a task\<close>

text \<open>
  Claim C10. The update that \<open>completeTask(taskId)\<close> makes at once changes nothing but
  the status of the targeted task: the list keeps its length and order, a task whose id is
  \<open>taskId\<close> becomes the same task with status \<open>completing\<close>, every other task is
  the same as before, and no other field of the store changes.
\<close>

theorem completeTask_immediate_frame:
  "length (tasks (completeTask_immediate taskId s)) = length (tasks s)
   \<and> (\<forall>i < length (tasks s).
         tasks (completeTask_immediate taskId s) ! i =
           (if node_id (tasks s ! i) = taskId
            then (tasks s ! i)\<lparr> node_status := Completing \<rparr>
            else tasks s ! i))
   \<and> completeTask_immediate taskId s = s\<lparr> tasks := tasks (completeTask_immediate taskId s) \<rparr>"
  by (simp add: completeTask_immediate_def)

theorem completeTask_immediate_frame_witness:
  "tasks (completeTask_immediate ''t1'' two_node_store) ! 0 = example_node ''t0'' (1 / 2)
   \<and> tasks (completeTask_immediate ''t1'' two_node_store) ! 1
       = (example_node ''t1'' (8 / 10))\<lparr> node_status := Completing \<rparr>"
proof -
  have t: "tasks two_node_store = [example_node ''t0'' (1 / 2), example_node ''t1'' (8 / 10)]"
    by (simp add: two_node_store_def)
  have ids: "node_id (example_node ident p) = ident" for ident p
    by (simp add: example_node_def)
  from completeTask_immediate_frame [of "''t1''" two_node_store]
  have "\<forall>i < 2. tasks (completeTask_immediate ''t1'' two_node_store) ! i =
           (if node_id (tasks two_node_store ! i) = ''t1''
            then (tasks two_node_store ! i)\<lparr> node_status := Completing \<rparr>
            else tasks two_node_store ! i)"
    by (simp add: t)
  then have "tasks (completeTask_immediate ''t1'' two_node_store) ! 0 =
           (if node_id (tasks two_node_store ! 0) = ''t1''
            then (tasks two_node_store ! 0)\<lparr> node_status := Completing \<rparr>
            else tasks two_node_store ! 0)"
       and "tasks (completeTask_immediate ''t1'' two_node_store) ! 1 =
           (if node_id (tasks two_node_store ! 1) = ''t1''
            then (tasks two_node_store ! 1)\<lparr> node_status := Completing \<rparr>
            else tasks two_node_store ! 1)"
    by simp_all
  then show ?thesis
    by (simp add: t ids)
qed

end
